theory Spec2Isabelle
  imports Complex_Main
begin

section \<open>Data model\<close>

text \<open>
  \<^verbatim>\<open>src/App.tsx\<close> imports \<^verbatim>\<open>SensorData\<close> and \<^verbatim>\<open>AnalysisResults\<close> from
  \<^verbatim>\<open>./types/sensor\<close>, \<^verbatim>\<open>parseCSV\<close> and \<^verbatim>\<open>generateSampleData\<close> from
  \<^verbatim>\<open>./utils/csvParser\<close> and \<^verbatim>\<open>MockRandomForestClassifier\<close> from
  \<^verbatim>\<open>./utils/mlPredictor\<close>. This development covers \<^verbatim>\<open>App.tsx\<close>: what it does is
  modelled from its code, and the imported types, the ingestor and the classifier are
  modelled from the specification.
\<close>

text \<open>
  Modelled from the spec: the error taxonomy of section 7 (the declarations of the
  values that \<^verbatim>\<open>parseCSV\<close> and the classifier throw are missing).
\<close>

datatype error =
  FormatError | EmptyInputError | ConfigurationError | ModelUnavailableError | BusyError

text \<open>
  Modelled from the spec: the label of a Prediction, \<^verbatim>\<open>failure\<close> or \<^verbatim>\<open>normal\<close>
  (the declaration in \<^verbatim>\<open>types/sensor\<close> is missing; \<^verbatim>\<open>App.tsx\<close> compares the field
  \<^verbatim>\<open>prediction\<close> with exactly these two literals).
\<close>

datatype label = Failure | Normal

text \<open>
  Modelled from the spec: a SensorRecord (\<^verbatim>\<open>SensorData\<close> in the code, declaration
  missing) is an identifier with a set of named numeric channels, each value a number or
  the "missing" marker (\<open>None\<close>).
\<close>

record SensorData =
  ident :: nat
  channels :: "(string \<times> real option) list"

text \<open>
  Modelled from the spec: a FeatureVector has the identifier of its record and a mapping
  from feature name to value.
\<close>

record FeatureVector =
  fv_ident :: nat
  features :: "(string \<times> real) list"

text \<open>
  Modelled from the spec: a Prediction is the identifier, a label and a confidence score
  (the optional contributing factors are left out). The field holding the label is called
  \<^verbatim>\<open>prediction\<close> in \<^verbatim>\<open>App.tsx\<close>.
\<close>

record Prediction =
  pred_ident :: nat
  prediction :: label
  confidence :: real

text \<open>The object literal of \<^verbatim>\<open>processData\<close> (\<^verbatim>\<open>AnalysisResults\<close>).\<close>

record AnalysisResults =
  totalSamples :: nat
  failurePredictions :: nat
  normalPredictions :: nat
  predictions :: "Prediction list"
  processingTime :: int

text \<open>\<^verbatim>\<open>type AppState = 'upload' | 'processing' | 'results'\<close>\<close>

datatype AppState = Upload | Processing | Results

text \<open>The four \<^verbatim>\<open>useState\<close> cells of the component \<^verbatim>\<open>App\<close>.\<close>

record app =
  state :: AppState
  progress :: nat
  status :: string
  results :: "AnalysisResults option"

text \<open>The initial values given to \<^verbatim>\<open>useState\<close>.\<close>

definition initial :: app where
  "initial = \<lparr>state = Upload, progress = 0, status = [], results = None\<rparr>"

section \<open>Effects of the handlers\<close>

text \<open>
  The handlers are asynchronous procedures whose only effects are calls of the four state
  setters, the 500 ms pause between two steps, \<^verbatim>\<open>console.error\<close> and \<^verbatim>\<open>alert\<close>.
  A handler is modelled by the sequence of effects it performs, in program order, together
  with the way it ends (normally, or with the error it throws).
\<close>

datatype action =
  SetState AppState
  | SetProgress nat
  | SetStatus string
  | SetResults "AnalysisResults option"
  | Delay nat
  | ConsoleError string error
  | Alert string

fun apply_action :: "app \<Rightarrow> action \<Rightarrow> app" where
  "apply_action a (SetState s) = a\<lparr>state := s\<rparr>"
| "apply_action a (SetProgress p) = a\<lparr>progress := p\<rparr>"
| "apply_action a (SetStatus m) = a\<lparr>status := m\<rparr>"
| "apply_action a (SetResults r) = a\<lparr>results := r\<rparr>"
| "apply_action a (Delay ms) = a"
| "apply_action a (ConsoleError m e) = a"
| "apply_action a (Alert m) = a"

definition exec :: "action list \<Rightarrow> app \<Rightarrow> app" where
  "exec tr a = foldl apply_action a tr"

text \<open>What an observer of the effects sees: the percentages passed to
  \<^verbatim>\<open>setProgress\<close>, the texts passed to \<^verbatim>\<open>alert\<close>, the errors logged.\<close>

fun percentages :: "action list \<Rightarrow> nat list" where
  "percentages [] = []"
| "percentages (SetProgress p # tr) = p # percentages tr"
| "percentages (_ # tr) = percentages tr"

fun alerts :: "action list \<Rightarrow> string list" where
  "alerts [] = []"
| "alerts (Alert m # tr) = m # alerts tr"
| "alerts (_ # tr) = alerts tr"

fun logged :: "action list \<Rightarrow> (string \<times> error) list" where
  "logged [] = []"
| "logged (ConsoleError m e # tr) = (m, e) # logged tr"
| "logged (_ # tr) = logged tr"

fun stored :: "action list \<Rightarrow> AnalysisResults option list" where
  "stored [] = []"
| "stored (SetResults r # tr) = r # stored tr"
| "stored (_ # tr) = stored tr"

text \<open>A progress notification is a \<^verbatim>\<open>setStatus\<close> immediately followed by a
  \<^verbatim>\<open>setProgress\<close>.\<close>

fun notifications :: "action list \<Rightarrow> (string \<times> nat) list" where
  "notifications (SetStatus m # SetProgress p # tr) = (m, p) # notifications tr"
| "notifications (_ # tr) = notifications tr"
| "notifications [] = []"

section \<open>The classifier\<close>

text \<open>
  Modelled from the spec: a rule of the ensemble (section 4.3) is a threshold predicate
  over one or more feature names, as in "vibration > T and temperature > U gives a failure
  vote": a list of (feature, threshold) pairs, all of which must be exceeded. A feature
  that the vector does not have is not exceeded.
\<close>

type_synonym rule = "(string \<times> real) list"

definition exceeds :: "FeatureVector \<Rightarrow> string \<times> real \<Rightarrow> bool" where
  "exceeds fv c = (case map_of (features fv) (fst c) of None \<Rightarrow> False | Some v \<Rightarrow> snd c < v)"

definition votes_failure :: "rule \<Rightarrow> FeatureVector \<Rightarrow> bool" where
  "votes_failure r fv = list_all (exceeds fv) r"

text \<open>
  Modelled from the spec: the configuration of a run is the rule set and the value that
  replaces a missing channel (section 4.2, "channel-wise default").
\<close>

record config =
  rules :: "rule list"
  impute_default :: real

text \<open>
  Modelled from the spec: \<^verbatim>\<open>prepare(record) -> FeatureVector\<close> (section 4.2) keeps the
  identifier and replaces every missing channel value by the configured default.
\<close>

definition prepare :: "real \<Rightarrow> SensorData \<Rightarrow> FeatureVector" where
  "prepare d r =
     \<lparr>fv_ident = ident r,
      features = map (\<lambda>c. (fst c, case snd c of None \<Rightarrow> d | Some v \<Rightarrow> v)) (channels r)\<rparr>"

text \<open>
  Modelled from the spec: \<^verbatim>\<open>classify(featureVector) -> Prediction\<close> (section 4.3). Every
  rule votes; the label is the majority vote with ties going to \<^verbatim>\<open>normal\<close>; the
  confidence is the fraction of rules that agree with the label. The spec does not say
  what the fraction is when there is no rule; it is 0 here.
\<close>

definition classify :: "rule list \<Rightarrow> FeatureVector \<Rightarrow> Prediction" where
  "classify rs fv =
     (let f = length (filter (\<lambda>r. votes_failure r fv) rs);
          n = length (filter (\<lambda>r. \<not> votes_failure r fv) rs);
          l = (if n < f then Failure else Normal)
      in \<lparr>pred_ident = fv_ident fv,
          prediction = l,
          confidence =
            (if rs = [] then 0
             else real (if l = Failure then f else n) / real (length rs))\<rparr>)"

text \<open>
  Modelled from the spec: \<^verbatim>\<open>MockRandomForestClassifier.predict\<close>
  (\<^verbatim>\<open>utils/mlPredictor\<close> is missing). The Classification Engine fails with
  \<^verbatim>\<open>ModelUnavailableError\<close> only if the rule set fails to load (\<open>None\<close>), never because
  of the content of a feature vector; otherwise it prepares and classifies every record
  independently, one Prediction per record, in input order.
\<close>

definition predict :: "config option \<Rightarrow> SensorData list \<Rightarrow> error + Prediction list" where
  "predict cfg data =
     (case cfg of
        None \<Rightarrow> Inl ModelUnavailableError
      | Some c \<Rightarrow> Inr (map (\<lambda>r. classify (rules c) (prepare (impute_default c) r)) data))"

section \<open>The ingestor\<close>

text \<open>
  Modelled from the spec: \<^verbatim>\<open>parseCSV\<close> (\<^verbatim>\<open>utils/csvParser\<close> is missing), the Record
  Ingestor of section 4.1. The raw input is the table as its lines, each line split into
  its cells, the header first. \<open>required\<close> are the channels that the header must declare,
  and \<open>number\<close> reads a cell as a finite number (\<open>None\<close> when it is not one: the field
  is then recorded as missing, not dropped). The ingestor fails with \<^verbatim>\<open>FormatError\<close> when
  the header is absent, when it does not declare every required channel, or when a row has
  not as many cells as the header, and with \<^verbatim>\<open>EmptyInputError\<close> when there is no data
  row. The spec does not order the checks; they are made in the order in which it lists
  them. Rows keep their order, and a record is identified by its row index.
\<close>

definition parseCSV ::
  "string list \<Rightarrow> (string \<Rightarrow> real option) \<Rightarrow> string list list \<Rightarrow> error + SensorData list" where
  "parseCSV required number table =
     (case table of
        [] \<Rightarrow> Inl FormatError
      | header # rows \<Rightarrow>
          if \<not> set required \<subseteq> set header then Inl FormatError
          else if list_ex (\<lambda>row. length row \<noteq> length header) rows then Inl FormatError
          else if rows = [] then Inl EmptyInputError
          else Inr (map (\<lambda>ir. \<lparr>ident = fst ir, channels = zip header (map number (snd ir))\<rparr>)
                     (enumerate 0 rows)))"

section \<open>The component \<^verbatim>\<open>App\<close>\<close>

text \<open>The array \<^verbatim>\<open>steps\<close> of \<^verbatim>\<open>processData\<close>: message and progress of each step.\<close>

definition steps :: "(string \<times> nat) list" where
  "steps =
     [(''Validating data format...'', 20),
      (''Preprocessing sensor data...'', 40),
      (''Loading Random Forest model...'', 60),
      (''Running predictions...'', 80),
      (''Generating analysis report...'', 100)]"

text \<open>
  \<^verbatim>\<open>for (const step of steps) { setStatus(step.message); setProgress(step.progress);
  await new Promise(resolve => setTimeout(resolve, 500)); }\<close>
\<close>

fun run_steps :: "(string \<times> nat) list \<Rightarrow> action list" where
  "run_steps [] = []"
| "run_steps (step # rest) =
     [SetStatus (fst step), SetProgress (snd step), Delay 500] @ run_steps rest"

text \<open>
  \<^verbatim>\<open>processData\<close>. \<open>constructed\<close> is the outcome of
  \<^verbatim>\<open>new MockRandomForestClassifier()\<close>, which runs after the first two setters and before
  the loop: the error that the constructor throws, or the classifier, given as the function
  that its method \<^verbatim>\<open>predict\<close> computes. \<open>startTime\<close> and \<open>endTime\<close> are the two
  readings of \<^verbatim>\<open>Date.now()\<close>. The result is the effects performed and the way the
  procedure ends: \<open>Inr ()\<close> when it returns, \<open>Inl e\<close> when the constructor or
  \<^verbatim>\<open>predict\<close> throws \<open>e\<close>, which ends the procedure after the effects performed so far.
\<close>

type_synonym classifier = "SensorData list \<Rightarrow> error + Prediction list"

definition processData ::
  "error + classifier \<Rightarrow> int \<Rightarrow> int \<Rightarrow> SensorData list \<Rightarrow> action list \<times> (error + unit)" where
  "processData constructed startTime endTime data =
     (let start = [SetState Processing, SetProgress 0]
      in case constructed of
           Inl e \<Rightarrow> (start, Inl e)
         | Inr classifier \<Rightarrow>
             (let before = start @ run_steps steps
              in case classifier data of
                   Inl e \<Rightarrow> (before, Inl e)
                 | Inr ps \<Rightarrow>
                     (before @
                      [SetResults (Some
                         \<lparr>totalSamples = length data,
                          failurePredictions =
                            length (filter (\<lambda>p. prediction p = Failure) ps),
                          normalPredictions =
                            length (filter (\<lambda>p. prediction p = Normal) ps),
                          predictions = ps,
                          processingTime = endTime - startTime\<rparr>),
                       SetState Results],
                      Inr ())))"

text \<open>
  \<^verbatim>\<open>handleFileSelect\<close>. \<open>parsed\<close> is what \<^verbatim>\<open>await parseCSV(file)\<close> gives: the records,
  or the error it throws. The \<^verbatim>\<open>catch\<close> block logs the error and shows one fixed alert;
  the procedure itself always returns normally.
\<close>

definition on_error :: "error \<Rightarrow> action list" where
  "on_error e =
     [ConsoleError ''Error processing file:'' e,
      Alert ''Error processing file. Please check the format and try again.'']"

definition handleFileSelect ::
  "error + SensorData list \<Rightarrow> error + classifier \<Rightarrow> int \<Rightarrow> int \<Rightarrow> action list" where
  "handleFileSelect parsed constructed startTime endTime =
     (case parsed of
        Inl e \<Rightarrow> on_error e
      | Inr data \<Rightarrow>
          (case processData constructed startTime endTime data of
             (tr, Inl e) \<Rightarrow> tr @ on_error e
           | (tr, Inr u) \<Rightarrow> tr))"

text \<open>
  \<^verbatim>\<open>handleUseSampleData\<close>. \<open>sampleData\<close> is what \<^verbatim>\<open>generateSampleData()\<close> returns.
  There is no \<^verbatim>\<open>try\<close> here: an error of \<^verbatim>\<open>processData\<close> leaves the handler.
\<close>

definition handleUseSampleData ::
  "SensorData list \<Rightarrow> error + classifier \<Rightarrow> int \<Rightarrow> int \<Rightarrow> action list \<times> (error + unit)" where
  "handleUseSampleData sampleData constructed startTime endTime =
     processData constructed startTime endTime sampleData"

text \<open>\<^verbatim>\<open>handleReset\<close>\<close>

definition handleReset :: "action list" where
  "handleReset = [SetState Upload, SetProgress 0, SetStatus [], SetResults None]"

section \<open>The scenario of the specification\<close>

text \<open>
  Section 8: three rows, temperature 90, 40, 85 and vibration 8, 1, 6, with
  "temperature > 80 and vibration > 5 gives a failure vote" as the only rule.
\<close>

definition scenario_config :: config where
  "scenario_config =
     \<lparr>rules = [[(''temperature'', 80), (''vibration'', 5)]], impute_default = 0\<rparr>"

definition scenario_data :: "SensorData list" where
  "scenario_data =
     [\<lparr>ident = 0, channels = [(''temperature'', Some 90), (''vibration'', Some 8)]\<rparr>,
      \<lparr>ident = 1, channels = [(''temperature'', Some 40), (''vibration'', Some 1)]\<rparr>,
      \<lparr>ident = 2, channels = [(''temperature'', Some 85), (''vibration'', Some 6)]\<rparr>]"

text \<open>The readings of the first row again, under another identifier.\<close>

definition repeated_reading :: "SensorData list" where
  "repeated_reading =
     [\<lparr>ident = 7, channels = [(''temperature'', Some 90), (''vibration'', Some 8)]\<rparr>]"

text \<open>The table of the scenario, and a reader for the numbers that occur in it.\<close>

definition scenario_table :: "string list list" where
  "scenario_table =
     [[''temperature'', ''vibration''], [''90'', ''8''], [''40'', ''1''], [''85'', ''6'']]"

definition scenario_number :: "string \<Rightarrow> real option" where
  "scenario_number =
     map_of [(''90'', 90), (''8'', 8), (''40'', 40), (''1'', 1), (''85'', 85), (''6'', 6)]"

section \<open>Basic facts\<close>

lemma run_steps_steps:
  "run_steps steps =
     [SetStatus ''Validating data format...'', SetProgress 20, Delay 500,
      SetStatus ''Preprocessing sensor data...'', SetProgress 40, Delay 500,
      SetStatus ''Loading Random Forest model...'', SetProgress 60, Delay 500,
      SetStatus ''Running predictions...'', SetProgress 80, Delay 500,
      SetStatus ''Generating analysis report...'', SetProgress 100, Delay 500]"
  by (simp add: steps_def)

lemma exec_append: "exec (xs @ ys) a = exec ys (exec xs a)"
  by (simp add: exec_def)

lemma exec_Nil: "exec [] a = a"
  by (simp add: exec_def)

lemma exec_Cons: "exec (x # xs) a = exec xs (apply_action a x)"
  by (simp add: exec_def)


lemma processData_not_constructed:
  "processData (Inl e) s t data = ([SetState Processing, SetProgress 0], Inl e)"
  by (simp add: processData_def)

lemma processData_throws:
  "f data = Inl e \<Longrightarrow>
   processData (Inr f) s t data =
     ([SetState Processing, SetProgress 0] @ run_steps steps, Inl e)"
  by (simp add: processData_def)

lemma processData_returns:
  "f data = Inr ps \<Longrightarrow>
   processData (Inr f) s t data =
     (([SetState Processing, SetProgress 0] @ run_steps steps) @
      [SetResults (Some
         \<lparr>totalSamples = length data,
          failurePredictions = length (filter (\<lambda>p. prediction p = Failure) ps),
          normalPredictions = length (filter (\<lambda>p. prediction p = Normal) ps),
          predictions = ps,
          processingTime = t - s\<rparr>),
       SetState Results], Inr ())"
  by (simp add: processData_def)

lemma processData_returns_iff:
  "snd (processData (Inr f) s t data) = Inr () \<longleftrightarrow> (\<exists>ps. f data = Inr ps)"
  by (cases "f data") (simp_all add: processData_def)

lemma processData_error:
  assumes "snd (processData constructed s t data) = Inl e"
  shows "constructed = Inl e \<or> (\<exists>f. constructed = Inr f \<and> f data = Inl e)"
proof (cases constructed)
  case (Inl e')
  with assms show ?thesis
    by (simp add: processData_not_constructed)
next
  case (Inr f)
  with assms show ?thesis
    by (cases "f data") (simp_all add: processData_throws processData_returns)
qed

lemma results_processData:
  "f data = Inr ps \<Longrightarrow>
   results (exec (fst (processData (Inr f) s t data)) a) =
     Some \<lparr>totalSamples = length data,
          failurePredictions = length (filter (\<lambda>p. prediction p = Failure) ps),
          normalPredictions = length (filter (\<lambda>p. prediction p = Normal) ps),
          predictions = ps,
          processingTime = t - s\<rparr>"
  by (simp add: processData_returns exec_append exec_Cons exec_Nil)

lemma stored_processData:
  "f data = Inr ps \<Longrightarrow>
   stored (fst (processData (Inr f) s t data)) =
     [Some \<lparr>totalSamples = length data,
           failurePredictions = length (filter (\<lambda>p. prediction p = Failure) ps),
           normalPredictions = length (filter (\<lambda>p. prediction p = Normal) ps),
           predictions = ps,
           processingTime = t - s\<rparr>]"
  by (simp add: processData_returns run_steps_steps)

lemma label_count:
  "length (filter (\<lambda>p. prediction p = Failure) ps) +
   length (filter (\<lambda>p. prediction p = Normal) ps) = length ps"
proof (induction ps)
  case Nil
  show ?case by simp
next
  case (Cons p ps)
  then show ?case by (cases "prediction p") simp_all
qed

lemma predict_length: "predict cfg data = Inr ps \<Longrightarrow> length ps = length data"
  by (auto simp: predict_def split: option.splits)

lemma predict_idents: "predict cfg data = Inr ps \<Longrightarrow> map pred_ident ps = map ident data"
  by (auto simp: predict_def classify_def prepare_def Let_def split: option.splits)

lemma scenario_run:
  "processData (Inr (predict (Some scenario_config))) 1000 3600 scenario_data =
    ([SetState Processing, SetProgress 0] @ run_steps steps @
     [SetResults (Some
        \<lparr>totalSamples = 3, failurePredictions = 2, normalPredictions = 1,
         predictions =
           [\<lparr>pred_ident = 0, prediction = Failure, confidence = 1\<rparr>,
            \<lparr>pred_ident = 1, prediction = Normal, confidence = 1\<rparr>,
            \<lparr>pred_ident = 2, prediction = Failure, confidence = 1\<rparr>],
         processingTime = 2600\<rparr>),
      SetState Results], Inr ())"
  by (simp add: processData_def predict_def scenario_config_def scenario_data_def
      classify_def prepare_def votes_failure_def exceeds_def)

lemma repeated_run:
  "processData (Inr (predict (Some scenario_config))) 5000 5001 repeated_reading =
    ([SetState Processing, SetProgress 0] @ run_steps steps @
     [SetResults (Some
        \<lparr>totalSamples = 1, failurePredictions = 1, normalPredictions = 0,
         predictions = [\<lparr>pred_ident = 7, prediction = Failure, confidence = 1\<rparr>],
         processingTime = 1\<rparr>),
      SetState Results], Inr ())"
  by (simp add: processData_def predict_def scenario_config_def repeated_reading_def
      classify_def prepare_def votes_failure_def exceeds_def)

lemma unavailable_run:
  "processData (Inr (predict None)) 1000 3600 scenario_data =
     ([SetState Processing, SetProgress 0] @ run_steps steps, Inl ModelUnavailableError)"
  by (simp add: processData_def predict_def)

lemma handleFileSelect_parse_error:
  "handleFileSelect (Inl e) constructed s t = on_error e"
  by (simp add: handleFileSelect_def)



lemma parseCSV_scenario:
  "parseCSV [''temperature'', ''vibration''] scenario_number scenario_table = Inr scenario_data"
  by (simp add: parseCSV_def scenario_table_def scenario_number_def scenario_data_def
      enumerate_eq_zip upt_rec)

lemma parseCSV_header_only:
  "set required \<subseteq> set header \<Longrightarrow> parseCSV required number [header] = Inl EmptyInputError"
  by (simp add: parseCSV_def)

lemma parseCSV_rows:
  "parseCSV required number table = Inr data \<Longrightarrow> length data = length table - 1"
  by (auto simp: parseCSV_def split: list.splits if_splits)

section \<open>The aggregate counts\<close>

text \<open>
  C1: for every data sequence on which a run of \<^verbatim>\<open>processData\<close> completes, the
  AnalysisResult that the run stores satisfies
  \<open>failurePredictions + normalPredictions = totalSamples\<close>. The classifier is the one
  modelled from the specification.
\<close>

theorem counts_sum_to_total:
  assumes "snd (processData (Inr (predict cfg)) startTime endTime data) = Inr ()"
  shows "\<exists>r. results (exec (fst (processData (Inr (predict cfg)) startTime endTime data)) a)
              = Some r
           \<and> failurePredictions r + normalPredictions r = totalSamples r"
proof -
  from assms obtain ps where ps: "predict cfg data = Inr ps"
    by (auto simp: processData_returns_iff)
  have "length ps = length data"
    using ps by (rule predict_length)
  then show ?thesis
    using ps by (simp add: results_processData label_count)
qed

theorem counts_sum_to_total_scenario:
  "snd (processData (Inr (predict (Some scenario_config))) 1000 3600 scenario_data) = Inr () \<and>
   (\<exists>r. results (exec (fst (processData (Inr (predict (Some scenario_config))) 1000 3600
           scenario_data)) initial) = Some r
        \<and> failurePredictions r + normalPredictions r = totalSamples r)"
proof -
  have h: "snd (processData (Inr (predict (Some scenario_config))) 1000 3600 scenario_data)
            = Inr ()"
    by (simp add: scenario_run)
  show ?thesis
    using h counts_sum_to_total [OF h, of initial] by blast
qed

text \<open>
  C2: for every data sequence on which a run of \<^verbatim>\<open>processData\<close> completes, the
  AnalysisResult holds as many predictions as \<open>totalSamples\<close> says, which is the number of
  input records: one Prediction per record. The classifier is the one modelled from the
  specification.
\<close>

theorem one_prediction_per_record:
  assumes "snd (processData (Inr (predict cfg)) startTime endTime data) = Inr ()"
  shows "\<exists>r. results (exec (fst (processData (Inr (predict cfg)) startTime endTime data)) a)
              = Some r
           \<and> length (predictions r) = totalSamples r
           \<and> totalSamples r = length data"
proof -
  from assms obtain ps where ps: "predict cfg data = Inr ps"
    by (auto simp: processData_returns_iff)
  have "length ps = length data"
    using ps by (rule predict_length)
  then show ?thesis
    using ps by (simp add: results_processData)
qed

theorem one_prediction_per_record_scenario:
  "snd (processData (Inr (predict (Some scenario_config))) 1000 3600 scenario_data) = Inr () \<and>
   (\<exists>r. results (exec (fst (processData (Inr (predict (Some scenario_config))) 1000 3600
           scenario_data)) initial) = Some r
        \<and> length (predictions r) = totalSamples r
        \<and> totalSamples r = length scenario_data)"
proof -
  have h: "snd (processData (Inr (predict (Some scenario_config))) 1000 3600 scenario_data)
            = Inr ()"
    by (simp add: scenario_run)
  show ?thesis
    using h one_prediction_per_record [OF h, of initial] by blast
qed

section \<open>Order of the predictions\<close>

text \<open>
  C3: for every run that completes, the identifiers of the predictions in the
  AnalysisResult are the identifiers of the input records, in input order. The classifier
  is the one modelled from the specification.
\<close>

theorem identifiers_in_input_order:
  assumes "snd (processData (Inr (predict cfg)) startTime endTime data) = Inr ()"
  shows "\<exists>r. results (exec (fst (processData (Inr (predict cfg)) startTime endTime data)) a)
              = Some r
           \<and> map pred_ident (predictions r) = map ident data"
proof -
  from assms obtain ps where ps: "predict cfg data = Inr ps"
    by (auto simp: processData_returns_iff)
  have "map pred_ident ps = map ident data"
    using ps by (rule predict_idents)
  then show ?thesis
    using ps by (simp add: results_processData)
qed

theorem identifiers_in_input_order_scenario:
  "snd (processData (Inr (predict (Some scenario_config))) 1000 3600 scenario_data) = Inr () \<and>
   (\<exists>r. results (exec (fst (processData (Inr (predict (Some scenario_config))) 1000 3600
           scenario_data)) initial) = Some r
        \<and> map pred_ident (predictions r) = map ident scenario_data)"
proof -
  have h: "snd (processData (Inr (predict (Some scenario_config))) 1000 3600 scenario_data)
            = Inr ()"
    by (simp add: scenario_run)
  show ?thesis
    using h identifiers_in_input_order [OF h, of initial] by blast
qed

section \<open>Progress\<close>

text \<open>
  C4 as the specification has it: the emitted percentages are strictly increasing, and the
  final one is 100 if and only if the run reaches the completed state. The second half
  fails: \<^verbatim>\<open>processData\<close> emits 100 in the loop over \<^verbatim>\<open>steps\<close>, before it calls
  \<^verbatim>\<open>classifier.predict\<close>. In the run below \<^verbatim>\<open>predict\<close> throws: the final percentage
  is 100, the run ends with the error, and the application stays in state
  \<^verbatim>\<open>processing\<close>.
\<close>

theorem final_percentage_without_completion:
  "percentages (fst (processData (Inr (predict None)) 1000 3600 scenario_data)) =
     [0, 20, 40, 60, 80, 100] \<and>
   last (percentages (fst (processData (Inr (predict None)) 1000 3600 scenario_data))) = 100 \<and>
   snd (processData (Inr (predict None)) 1000 3600 scenario_data) = Inl ModelUnavailableError \<and>
   exec (fst (processData (Inr (predict None)) 1000 3600 scenario_data)) initial =
     \<lparr>state = Processing, progress = 100, status = ''Generating analysis report...'',
      results = None\<rparr>"
  by (simp add: unavailable_run run_steps_steps exec_def initial_def)

text \<open>
  C4, amended: in every run of \<^verbatim>\<open>processData\<close> the emitted percentages are strictly
  increasing, and a run that reaches the completed state has 100 as its final percentage.
  This holds whether the classifier is constructed or not and whether \<^verbatim>\<open>predict\<close>
  returns or throws.
\<close>

theorem progress_strictly_increasing:
  "sorted_wrt (<) (percentages (fst (processData constructed startTime endTime data))) \<and>
   (state (exec (fst (processData constructed startTime endTime data)) a) = Results \<longrightarrow>
      last (percentages (fst (processData constructed startTime endTime data))) = 100)"
proof (cases constructed)
  case (Inl e)
  then show ?thesis
    by (simp add: processData_not_constructed exec_Cons exec_Nil)
next
  case (Inr f)
  show ?thesis
  proof (cases "f data")
    case (Inl e)
    then show ?thesis
      using Inr by (simp add: processData_throws run_steps_steps exec_Cons exec_Nil)
  next
    case (Inr ps)
    then show ?thesis
      using \<open>constructed = Inr f\<close>
      by (simp add: processData_returns run_steps_steps exec_Cons exec_Nil)
  qed
qed

theorem progress_strictly_increasing_scenario:
  "sorted_wrt (<)
     (percentages (fst (processData (Inr (predict (Some scenario_config))) 1000 3600
        scenario_data))) \<and>
   state (exec (fst (processData (Inr (predict (Some scenario_config))) 1000 3600
     scenario_data)) initial) = Results \<and>
   last (percentages (fst (processData (Inr (predict (Some scenario_config))) 1000 3600
     scenario_data))) = 100"
proof -
  have h: "state (exec (fst (processData (Inr (predict (Some scenario_config))) 1000 3600
     scenario_data)) initial) = Results"
    by (simp add: scenario_run run_steps_steps exec_def initial_def)
  show ?thesis
    using h progress_strictly_increasing
      [of "Inr (predict (Some scenario_config))" 1000 3600 scenario_data initial]
    by blast
qed

section \<open>Empty input\<close>

text \<open>
  C5: when the input has zero data rows, the run fails with \<^verbatim>\<open>EmptyInputError\<close> and no
  AnalysisResult is produced. The input is a table made of its header alone, the header
  declaring the required channels; the ingestor is the one modelled from the
  specification. \<^verbatim>\<open>parseCSV\<close> throws \<^verbatim>\<open>EmptyInputError\<close>; \<^verbatim>\<open>handleFileSelect\<close> never
  reaches \<^verbatim>\<open>processData\<close>, logs this error, stores no AnalysisResult and leaves every
  state cell as it was.
\<close>

theorem empty_input_rejected:
  assumes "set required \<subseteq> set header"
  shows "parseCSV required number [header] = Inl EmptyInputError \<and>
         logged (handleFileSelect (parseCSV required number [header]) constructed
           startTime endTime) = [(''Error processing file:'', EmptyInputError)] \<and>
         stored (handleFileSelect (parseCSV required number [header]) constructed
           startTime endTime) = [] \<and>
         percentages (handleFileSelect (parseCSV required number [header]) constructed
           startTime endTime) = [] \<and>
         exec (handleFileSelect (parseCSV required number [header]) constructed
           startTime endTime) a = a"
proof -
  have p: "parseCSV required number [header] = Inl EmptyInputError"
    using assms by (rule parseCSV_header_only)
  show ?thesis
    by (simp add: p handleFileSelect_parse_error on_error_def exec_Cons exec_Nil)
qed

theorem empty_input_rejected_scenario:
  "parseCSV [''temperature'', ''vibration''] scenario_number [[''temperature'', ''vibration'']]
     = Inl EmptyInputError \<and>
   logged (handleFileSelect
      (parseCSV [''temperature'', ''vibration''] scenario_number
         [[''temperature'', ''vibration'']])
      (Inr (predict (Some scenario_config))) 1000 3600)
     = [(''Error processing file:'', EmptyInputError)] \<and>
   stored (handleFileSelect
      (parseCSV [''temperature'', ''vibration''] scenario_number
         [[''temperature'', ''vibration'']])
      (Inr (predict (Some scenario_config))) 1000 3600) = [] \<and>
   exec (handleFileSelect
      (parseCSV [''temperature'', ''vibration''] scenario_number
         [[''temperature'', ''vibration'']])
      (Inr (predict (Some scenario_config))) 1000 3600) initial = initial"
proof -
  have h: "set [''temperature'', ''vibration''] \<subseteq> set [''temperature'', ''vibration'']"
    by simp
  show ?thesis
    using empty_input_rejected [OF h, of scenario_number
        "Inr (predict (Some scenario_config))" 1000 3600 initial]
    by blast
qed

section \<open>Failed runs\<close>




section \<open>Requests during a run\<close>

text \<open>
  C8 as the specification has it: while a run is running, a second analysis request is
  rejected with \<^verbatim>\<open>BusyError\<close>. The handlers have no such check. Below, a run on the
  sample data has put the application in state \<^verbatim>\<open>processing\<close> and waits in its first
  pause. A file selected earlier finishes parsing now, so that \<^verbatim>\<open>handleFileSelect\<close>
  calls \<^verbatim>\<open>processData\<close> during the first run: nothing is logged, no alert is shown,
  and the second run stores its own AnalysisResult.
\<close>

theorem second_run_not_rejected:
  "state (exec (take 5 (fst (handleUseSampleData scenario_data
      (Inr (predict (Some scenario_config))) 1000 3600))) initial) = Processing \<and>
   logged (handleFileSelect (Inr repeated_reading) (Inr (predict (Some scenario_config)))
      5000 5001) = [] \<and>
   alerts (handleFileSelect (Inr repeated_reading) (Inr (predict (Some scenario_config)))
      5000 5001) = [] \<and>
   stored (handleFileSelect (Inr repeated_reading) (Inr (predict (Some scenario_config)))
      5000 5001) =
     [Some \<lparr>totalSamples = 1, failurePredictions = 1, normalPredictions = 0,
            predictions = [\<lparr>pred_ident = 7, prediction = Failure, confidence = 1\<rparr>],
            processingTime = 1\<rparr>]"
  by (simp add: handleUseSampleData_def handleFileSelect_def scenario_run repeated_run
      run_steps_steps exec_def initial_def)

text \<open>
  C8, amended: a second analysis request made while a run is in the running state is not
  rejected with \<^verbatim>\<open>BusyError\<close>. \<^verbatim>\<open>processData\<close> reads none of the state cells and makes
  no busy check, so what it does is the same whenever it is called: it ends with an error
  only when the constructor of the classifier or \<^verbatim>\<open>predict\<close> throws, and then with that
  error; and whenever the classifier is constructed and \<^verbatim>\<open>predict\<close> returns, it runs to
  its end and stores its AnalysisResult.
\<close>

theorem request_never_rejected:
  "(\<forall>e. snd (processData constructed startTime endTime data) = Inl e \<longrightarrow>
        constructed = Inl e \<or> (\<exists>f. constructed = Inr f \<and> f data = Inl e)) \<and>
   (\<forall>f ps. constructed = Inr f \<and> f data = Inr ps \<longrightarrow>
        snd (processData constructed startTime endTime data) = Inr () \<and>
        (\<exists>r. stored (fst (processData constructed startTime endTime data)) = [Some r] \<and>
             predictions r = ps))"
proof (intro conjI allI impI)
  fix e
  assume "snd (processData constructed startTime endTime data) = Inl e"
  then show "constructed = Inl e \<or> (\<exists>f. constructed = Inr f \<and> f data = Inl e)"
    by (rule processData_error)
next
  fix f ps
  assume h: "constructed = Inr f \<and> f data = Inr ps"
  then show "snd (processData constructed startTime endTime data) = Inr ()"
    by (simp add: processData_returns)
  show "\<exists>r. stored (fst (processData constructed startTime endTime data)) = [Some r] \<and>
           predictions r = ps"
    using h by (simp add: stored_processData)
qed

theorem request_never_rejected_scenario:
  "snd (processData (Inr (predict None)) 1000 3600 scenario_data) = Inl ModelUnavailableError \<and>
   predict None scenario_data = Inl ModelUnavailableError \<and>
   predict (Some scenario_config) repeated_reading =
     Inr [\<lparr>pred_ident = 7, prediction = Failure, confidence = 1\<rparr>] \<and>
   snd (processData (Inr (predict (Some scenario_config))) 5000 5001 repeated_reading)
     = Inr () \<and>
   (\<exists>r. stored (fst (processData (Inr (predict (Some scenario_config))) 5000 5001
           repeated_reading)) = [Some r] \<and>
        predictions r = [\<lparr>pred_ident = 7, prediction = Failure, confidence = 1\<rparr>])"
proof -
  have h1: "snd (processData (Inr (predict None)) 1000 3600 scenario_data)
             = Inl ModelUnavailableError"
    by (simp add: unavailable_run)
  have h2: "predict (Some scenario_config) repeated_reading =
     Inr [\<lparr>pred_ident = 7, prediction = Failure, confidence = 1\<rparr>]"
    by (simp add: predict_def scenario_config_def repeated_reading_def
        classify_def prepare_def votes_failure_def exceeds_def)
  have "predict None scenario_data = Inl ModelUnavailableError"
    using h1 request_never_rejected [of "Inr (predict None)" 1000 3600 scenario_data]
    by blast
  moreover have "snd (processData (Inr (predict (Some scenario_config))) 5000 5001
        repeated_reading) = Inr () \<and>
     (\<exists>r. stored (fst (processData (Inr (predict (Some scenario_config))) 5000 5001
           repeated_reading)) = [Some r] \<and>
        predictions r = [\<lparr>pred_ident = 7, prediction = Failure, confidence = 1\<rparr>])"
    using h2 request_never_rejected
      [of "Inr (predict (Some scenario_config))" 5000 5001 repeated_reading]
    by blast
  ultimately show ?thesis
    using h1 h2 by blast
qed

section \<open>The notifications of a run\<close>

text \<open>
  C9: for every data sequence, the empty one included, a run of \<^verbatim>\<open>processData\<close> in
  which the classifier has been constructed emits exactly five progress notifications,
  with the percentages 20, 40, 60, 80, 100 and their fixed status texts, in this order,
  whatever \<^verbatim>\<open>predict\<close> does. They are among the first 17 effects, which are the same for
  every input and are performed before \<^verbatim>\<open>classifier.predict\<close> is called; what follows
  them holds no notification and no percentage.
\<close>

theorem five_notifications:
  "notifications (fst (processData (Inr classifier) startTime endTime data)) =
     [(''Validating data format...'', 20),
      (''Preprocessing sensor data...'', 40),
      (''Loading Random Forest model...'', 60),
      (''Running predictions...'', 80),
      (''Generating analysis report...'', 100)] \<and>
   take 17 (fst (processData (Inr classifier) startTime endTime data)) =
     [SetState Processing, SetProgress 0,
      SetStatus ''Validating data format...'', SetProgress 20, Delay 500,
      SetStatus ''Preprocessing sensor data...'', SetProgress 40, Delay 500,
      SetStatus ''Loading Random Forest model...'', SetProgress 60, Delay 500,
      SetStatus ''Running predictions...'', SetProgress 80, Delay 500,
      SetStatus ''Generating analysis report...'', SetProgress 100, Delay 500] \<and>
   notifications (drop 17 (fst (processData (Inr classifier) startTime endTime data))) = [] \<and>
   percentages (drop 17 (fst (processData (Inr classifier) startTime endTime data))) = []"
  by (cases "classifier data")
     (simp_all add: processData_throws processData_returns run_steps_steps)

section \<open>Reset\<close>

text \<open>
  C10: \<^verbatim>\<open>handleReset\<close> takes the application from any state to the initial one: state
  \<^verbatim>\<open>upload\<close>, progress 0, empty status, no results. The AnalysisResult of the previous
  run is gone.
\<close>

theorem reset_restores_initial:
  "exec handleReset a = initial \<and>
   exec handleReset a = \<lparr>state = Upload, progress = 0, status = [], results = None\<rparr>"
  by (simp add: exec_def handleReset_def initial_def)

end
